theory Spec2Isabelle
  imports Complex_Main
begin

section \<open>Errors and the debugging macros\<close>

text \<open>
  The exceptions the two headers throw, as values. \<open>ValueError\<close> and \<open>RuntimeError\<close>
  carry the message of the throw site; \<open>OutOfRange\<close> is \<open>std::out_of_range\<close>, what
  \<open>std::string::substr\<close> throws when its position lies beyond the string.
  \<open>ConfigurationError\<close> and \<open>UsageError\<close> are the error classes of the specification,
  used by the operations whose bodies are not in the headers.
\<close>

datatype error =
    ValueError string
  | RuntimeError string
  | OutOfRange
  | ConfigurationError
  | UsageError

text \<open>
  Modelled from the spec: the macro \<open>DBG_FAILIF\<close> of \<open>utility.h\<close>, which is not among
  the sources. \<open>DBG_FAILIF(cond, exc, msg)\<close> throws \<open>exc(msg)\<close> when \<open>cond\<close> holds (the
  specification of \<open>deactivate\<close>: "fails with a usage error if \<open>subPop\<close> does not match
  the currently activated one").
\<close>

definition DBG_FAILIF :: "bool \<Rightarrow> error \<Rightarrow> error + unit" where
  "DBG_FAILIF cond e = (if cond then Inl e else Inr ())"

text \<open>
  Modelled from the spec: the macro \<open>DBG_ASSERT\<close> of \<open>utility.h\<close>, which is not among
  the sources. \<open>DBG_ASSERT(cond, exc, msg)\<close> throws \<open>exc(msg)\<close> when \<open>cond\<close> does not
  hold (the specification of the fitness table: "constructed with exactly that length
  or construction fails").
\<close>

definition DBG_ASSERT :: "bool \<Rightarrow> error \<Rightarrow> error + unit" where
  "DBG_ASSERT cond e = (if cond then Inr () else Inl e)"

section \<open>virtualSubPop.h\<close>

subsection \<open>vspID\<close>

text \<open>
  \<open>SubPopID\<close> is a signed integer type and \<open>InvalidSubPopID\<close> a constant of it; both
  are declared outside the two headers. The operations below only compare and copy
  such values, so the type is \<open>int\<close>, and the constant is a parameter
  \<open>InvalidSubPopID\<close> of every operation that mentions it.
\<close>

type_synonym SubPopID = int

record vspID =
  m_subPop :: SubPopID
  m_virtualSubPop :: SubPopID

text \<open>\<open>vspID(const vectori & subPop)\<close>\<close>

definition vspID_vectori :: "SubPopID \<Rightarrow> int list \<Rightarrow> error + vspID" where
  "vspID_vectori InvalidSubPopID subPop =
     (case DBG_FAILIF (length subPop > 2)
        (ValueError ''VSP should be specified as a subPop and virtualSubPop ID pair'') of
        Inl e \<Rightarrow> Inl e
      | Inr _ \<Rightarrow> Inr
         \<lparr>m_subPop = (if length subPop > 0 \<and> subPop ! 0 \<ge> 0 then subPop ! 0
                       else InvalidSubPopID),
          m_virtualSubPop = (if length subPop > 1 \<and> subPop ! 1 \<ge> 0 then subPop ! 1
                              else InvalidSubPopID)\<rparr>)"

text \<open>\<open>vspID(SubPopID subPop = InvalidSubPopID, SubPopID virtualSubPop = InvalidSubPopID)\<close>\<close>

definition vspID_pair :: "SubPopID \<Rightarrow> SubPopID \<Rightarrow> SubPopID \<Rightarrow> vspID" where
  "vspID_pair InvalidSubPopID subPop virtualSubPop =
     \<lparr>m_subPop = (if subPop < 0 then InvalidSubPopID else subPop),
      m_virtualSubPop = (if virtualSubPop < 0 then InvalidSubPopID else virtualSubPop)\<rparr>"

definition subPop :: "vspID \<Rightarrow> SubPopID" where
  "subPop v = m_subPop v"

definition virtualSubPop :: "vspID \<Rightarrow> SubPopID" where
  "virtualSubPop v = m_virtualSubPop v"

definition valid :: "SubPopID \<Rightarrow> vspID \<Rightarrow> bool" where
  "valid InvalidSubPopID v = (m_subPop v \<noteq> InvalidSubPopID)"

definition isVirtual :: "SubPopID \<Rightarrow> vspID \<Rightarrow> bool" where
  "isVirtual InvalidSubPopID v = (m_virtualSubPop v \<noteq> InvalidSubPopID)"

subsection \<open>vspSplitter: the activation record\<close>

record vspSplitter =
  m_names :: "string list"
  m_activated :: SubPopID


definition activatedSubPop :: "vspSplitter \<Rightarrow> SubPopID" where
  "activatedSubPop s = m_activated s"

text \<open>
  \<open>void deactivate(SubPopID subPop)\<close>: the method receives no population; it checks
  the index against the record and clears the record.
\<close>

definition deactivate :: "SubPopID \<Rightarrow> vspSplitter \<Rightarrow> SubPopID \<Rightarrow> error + vspSplitter" where
  "deactivate InvalidSubPopID s sp =
     (case DBG_FAILIF (sp \<noteq> m_activated s)
        (RuntimeError ''Deactivate non-activated virtual subpopulation.'') of
        Inl e \<Rightarrow> Inl e
      | Inr _ \<Rightarrow> Inr (s\<lparr>m_activated := InvalidSubPopID\<rparr>))"

subsection \<open>Individuals and the virtual methods of a splitter\<close>

text \<open>
  Modelled from the spec: the classes \<open>individual\<close> and \<open>population\<close>, which the
  headers only declare. An individual exposes its sex, its affection flag and "a
  visibility flag toggled exclusively by splitter activation"; a population is its
  subpopulations in storage order, and an individual is addressed by its index
  within its subpopulation.
\<close>

datatype Sex = Male | Female

record individual =
  sex :: Sex
  affected :: bool
  visible :: bool

type_synonym population = "individual list list"

text \<open>
  \<open>numVirtualSubPop\<close> and \<open>contains\<close> are pure virtual in \<open>vspSplitter\<close>: a splitter
  object brings its own. The record holds these two methods of one object, the count
  being "fixed per splitter instance".
\<close>

record vspSplitter_methods =
  numVirtualSubPop :: nat
  contains :: "population \<Rightarrow> nat \<Rightarrow> vspID \<Rightarrow> bool"

text \<open>
  Modelled from the spec: the individual with index \<open>i\<close> in subpopulation \<open>sp\<close>
  ("\<open>individualIndex\<close> is relative to the named subpopulation"), if there is one.
\<close>

definition ind_at :: "population \<Rightarrow> SubPopID \<Rightarrow> nat \<Rightarrow> individual option" where
  "ind_at pop sp i =
     (if 0 \<le> sp \<and> nat sp < length pop \<and> i < length (pop ! nat sp)
      then Some (pop ! nat sp ! i) else None)"

text \<open>
  Modelled from the spec: \<open>sexSplitter::contains\<close> (only declared in the header):
  "VSP 0 = male, VSP 1 = female". \<open>numVirtualSubPop\<close> returns 2 in the header. An
  index that names no individual is contained in no VSP.
\<close>

definition sexSplitter :: vspSplitter_methods where
  "sexSplitter =
     \<lparr>numVirtualSubPop = 2,
      contains = (\<lambda>pop i vsp.
        case ind_at pop (m_subPop vsp) i of
          None \<Rightarrow> False
        | Some x \<Rightarrow> (m_virtualSubPop vsp = 0 \<and> sex x = Male) \<or>
                    (m_virtualSubPop vsp = 1 \<and> sex x = Female))\<rparr>"


text \<open>
  Modelled from the spec: \<open>rangeSplitter\<close> (constructor and methods only declared):
  \<open>len(ranges)\<close> VSPs, and an individual belongs to VSP \<open>vsp\<close> when its "storage-order
  index within the subpopulation falls in half-open interval
  \<open>[ranges[vsp][0], ranges[vsp][1])\<close>".
\<close>

definition rangeSplitter :: "(nat \<times> nat) list \<Rightarrow> vspSplitter_methods" where
  "rangeSplitter ranges =
     \<lparr>numVirtualSubPop = length ranges,
      contains = (\<lambda>pop i vsp.
        case ind_at pop (m_subPop vsp) i of
          None \<Rightarrow> False
        | Some x \<Rightarrow> 0 \<le> m_virtualSubPop vsp \<and> nat (m_virtualSubPop vsp) < length ranges \<and>
                    fst (ranges ! nat (m_virtualSubPop vsp)) \<le> i \<and>
                    i < snd (ranges ! nat (m_virtualSubPop vsp)))\<rparr>"

subsection \<open>Activation\<close>

text \<open>
  Modelled from the spec: the individuals of \<open>subPop\<close> as \<open>activate\<close> leaves them, the
  flag of each set "to true for individuals satisfying \<open>contains\<close>, false otherwise".
\<close>

definition set_visibility ::
  "vspSplitter_methods \<Rightarrow> population \<Rightarrow> SubPopID \<Rightarrow> SubPopID \<Rightarrow> individual list" where
  "set_visibility meth pop sp vsp =
     map (\<lambda>i. (pop ! nat sp ! i)
                 \<lparr>visible := contains meth pop i \<lparr>m_subPop = sp, m_virtualSubPop = vsp\<rparr>\<rparr>)
       [0..<length (pop ! nat sp)]"

text \<open>
  Modelled from the spec: \<open>activate\<close>, pure virtual in \<open>vspSplitter\<close> and only declared
  in every subclass: it "sets the visibility flag to true for individuals satisfying
  \<open>contains\<close>, false otherwise, for all individuals of \<open>subPop\<close>; records \<open>subPop\<close> as
  activated". An "out-of-range VSP index" is a usage error, "detected at the call
  site, reported to the caller": nothing is changed then. A \<open>subPop\<close> that names no
  subpopulation has no individuals.
\<close>

definition activate ::
  "vspSplitter_methods \<Rightarrow> vspSplitter \<Rightarrow> population \<Rightarrow> SubPopID \<Rightarrow> SubPopID \<Rightarrow>
     error + vspSplitter \<times> population" where
  "activate meth s pop sp vsp =
     (if vsp < 0 \<or> numVirtualSubPop meth \<le> nat vsp
      then Inl UsageError
      else Inr (s\<lparr>m_activated := sp\<rparr>,
                if 0 \<le> sp \<and> nat sp < length pop
                then pop[nat sp := set_visibility meth pop sp vsp]
                else pop))"

text \<open>
  The sequence "\<open>activate(pop, subPop, vsp)\<close> immediately followed by
  \<open>deactivate(subPop)\<close>" on a splitter and a population. \<open>deactivate\<close> has the splitter
  only, so the population is the one \<open>activate\<close> left.
\<close>

definition activate_deactivate ::
  "SubPopID \<Rightarrow> vspSplitter_methods \<Rightarrow> vspSplitter \<Rightarrow> population \<Rightarrow> SubPopID \<Rightarrow> SubPopID \<Rightarrow>
     error + vspSplitter \<times> population" where
  "activate_deactivate InvalidSubPopID meth s pop sp vsp =
     (case activate meth s pop sp vsp of
        Inl e \<Rightarrow> Inl e
      | Inr (s1, pop1) \<Rightarrow>
          (case deactivate InvalidSubPopID s1 sp of
             Inl e \<Rightarrow> Inl e
           | Inr s2 \<Rightarrow> Inr (s2, pop1)))"

subsection \<open>productSplitter\<close>

text \<open>
  The fields of \<open>productSplitter\<close> after its \<open>vspSplitter\<close> base: \<open>m_splitters\<close> (here
  \<open>prod_splitters\<close>, each child by its virtual methods) and \<open>m_numVSP\<close>, a count.
\<close>

record productSplitter = vspSplitter +
  prod_splitters :: "vspSplitter_methods list"
  m_numVSP :: nat

text \<open>
  Modelled from the spec: the constructor of \<open>productSplitter\<close> (only declared): the
  splitter "cross-multiplies child splitters' VSP spaces", so \<open>m_numVSP\<close> is the
  product of the children's counts.
\<close>

definition productSplitter_init ::
  "SubPopID \<Rightarrow> vspSplitter_methods list \<Rightarrow> string list \<Rightarrow> productSplitter" where
  "productSplitter_init InvalidSubPopID splitters names =
     \<lparr>m_names = names, m_activated = InvalidSubPopID,
      prod_splitters = splitters,
      m_numVSP = prod_list (map numVirtualSubPop splitters)\<rparr>"

text \<open>\<open>UINT numVirtualSubPop() { return m_numVSP; }\<close>\<close>

definition product_numVirtualSubPop :: "productSplitter \<Rightarrow> nat" where
  "product_numVirtualSubPop p = m_numVSP p"

text \<open>
  Modelled from the spec: the "mixed-radix decomposition over the child splitters' VSP
  counts (most-significant child varies slowest)". The first child is the most
  significant: its index changes only after all the combinations of the later
  children have passed.
\<close>

fun mixed_radix :: "nat list \<Rightarrow> nat \<Rightarrow> nat list" where
  "mixed_radix [] v = []"
| "mixed_radix (c # cs) v = (v div prod_list cs) # mixed_radix cs (v mod prod_list cs)"

text \<open>
  Modelled from the spec: \<open>productSplitter::getVSPs\<close> (only declared): "a flattened
  VSP index decomposes, via mixed-radix decomposition over the child splitters' VSP
  counts, into one child-local index per child splitter".
\<close>

definition getVSPs :: "productSplitter \<Rightarrow> nat \<Rightarrow> nat list" where
  "getVSPs p vsp = mixed_radix (map numVirtualSubPop (prod_splitters p)) vsp"

text \<open>
  The value of a list of digits in the mixed radix of the counts: the flattened index
  that the child-local indices stand for.
\<close>

fun mixed_radix_value :: "nat list \<Rightarrow> nat list \<Rightarrow> nat" where
  "mixed_radix_value (c # cs) (d # ds) = d * prod_list cs + mixed_radix_value cs ds"
| "mixed_radix_value cs ds = 0"

text \<open>
  Modelled from the spec: \<open>productSplitter::contains\<close> (only declared): "membership
  requires simultaneous containment in every child splitter's corresponding VSP". A
  VSP index outside \<open>[0, count)\<close> is a usage error.
\<close>

definition product_contains ::
  "productSplitter \<Rightarrow> population \<Rightarrow> nat \<Rightarrow> vspID \<Rightarrow> error + bool" where
  "product_contains p pop i vsp =
     (if m_virtualSubPop vsp < 0 \<or> m_numVSP p \<le> nat (m_virtualSubPop vsp)
      then Inl UsageError
      else Inr (list_all
        (\<lambda>(child, local). contains child pop i
           \<lparr>m_subPop = m_subPop vsp, m_virtualSubPop = int local\<rparr>)
        (zip (prod_splitters p) (getVSPs p (nat (m_virtualSubPop vsp))))))"

subsection \<open>combinedSplitter\<close>






section \<open>selector.h\<close>

subsection \<open>The operator classes\<close>

text \<open>
  Every selector forwards \<open>stage, begin, end, step, at, rep, grp, infoFields\<close> to the
  constructor of \<open>baseOperator\<close>, a class declared outside the two headers; the record
  \<open>opArgs\<close> keeps these arguments as they were passed. \<open>selector\<close> adds \<open>m_subPops\<close>.
\<close>

record opArgs =
  op_stage :: int
  op_begin :: int
  op_end :: int
  op_step :: int
  op_at :: "int list"
  op_rep :: int
  op_grp :: int
  op_infoFields :: "string list"

record selector =
  m_args :: opArgs
  m_subPops :: "nat list"

text \<open>
  The default arguments of the constructors of the selectors: \<open>begin = 0\<close>,
  \<open>end = -1\<close>, \<open>step = 1\<close>, \<open>at = vectorl()\<close>, \<open>infoFields = vectorstr(1, "fitness")\<close>
  and, for the macros \<open>PreMating\<close>, \<open>REP_ALL\<close> and \<open>GRP_ALL\<close> defined outside the two
  headers, the values given.
\<close>

definition default_opArgs :: "int \<Rightarrow> int \<Rightarrow> int \<Rightarrow> opArgs" where
  "default_opArgs PreMating REP_ALL GRP_ALL =
     \<lparr>op_stage = PreMating, op_begin = 0, op_end = - 1, op_step = 1, op_at = [],
      op_rep = REP_ALL, op_grp = GRP_ALL, op_infoFields = [''fitness'']\<rparr>"

definition selector_init :: "nat list \<Rightarrow> opArgs \<Rightarrow> selector" where
  "selector_init subPops args = \<lparr>m_args = args, m_subPops = subPops\<rparr>"

text \<open>
  The objects a \<open>vectorop\<close> (a vector of \<open>baseOperator *\<close>) can hold. The fields of each
  class follow its private section, after the \<open>selector\<close> base:
  \<^item> \<open>MapSelector\<close>: \<open>m_loci\<close>, \<open>m_dict\<close>, \<open>m_phase\<close>;
  \<^item> \<open>MaSelector\<close>: \<open>m_loci\<close>, \<open>m_fitness\<close>, \<open>m_wildtype\<close>;
  \<^item> \<open>MlSelector\<close>: \<open>m_selectors\<close>, \<open>m_mode\<close>;
  \<^item> \<open>PySelector\<close>: \<open>m_loci\<close>, \<open>m_func\<close>, \<open>m_alleles\<close>, \<open>m_len\<close>, \<open>m_numArray\<close>, a
    \<open>PyObject *\<close> being an address or \<open>NULL\<close> (\<open>None\<close>);
  \<^item> \<open>OtherOperator\<close>: an operator of any class declared elsewhere, known here by the
    text its \<open>__repr__\<close> returns.
\<close>

type_synonym PyObject_ptr = "nat option"

datatype baseOperator =
    Selector selector
  | MapSelector selector "nat list" "string \<rightharpoonup> real" bool
  | MaSelector selector "nat list" "real list" "nat list"
  | MlSelector selector "baseOperator list" int
  | PySelector selector "nat list" PyObject_ptr "nat list" int PyObject_ptr
  | OtherOperator string

text \<open>\<open>__repr__()\<close>\<close>

fun repr :: "baseOperator \<Rightarrow> string" where
  "repr (Selector b) = ''<simuPOP::selector>''"
| "repr (MapSelector b loci dict phase) = ''<simuPOP::selector::map selector>''"
| "repr (MaSelector b loci fitness wildtype) =
     ''<simuPOP::selector::multiple-alleles selector>''"
| "repr (MlSelector b selectors mode) = ''<simuPOP::selector::multiple-loci selector>''"
| "repr (PySelector b loci func alleles len numArray) =
     ''<simuPOP::selector::python selector>''"
| "repr (OtherOperator r) = r"

text \<open>
  Modelled from the spec: \<open>clone()\<close> of an operator of a class declared elsewhere, a
  deep copy of the object ("cloned (deep copy)").
\<close>

definition clone_elsewhere :: "string \<Rightarrow> error + baseOperator" where
  "clone_elsewhere r = Inr (OtherOperator r)"

text \<open>
  \<open>clone()\<close>. The selectors other than \<open>mlSelector\<close> return \<open>new C(*this)\<close>; the copy
  constructor of \<open>pySelector\<close> sets \<open>m_numArray\<close> to \<open>NULL\<close>; \<open>mlSelector::clone\<close>
  throws.
\<close>

fun clone :: "baseOperator \<Rightarrow> error + baseOperator" where
  "clone (Selector b) = Inr (Selector b)"
| "clone (MapSelector b loci dict phase) = Inr (MapSelector b loci dict phase)"
| "clone (MaSelector b loci fitness wildtype) = Inr (MaSelector b loci fitness wildtype)"
| "clone (MlSelector b selectors mode) =
     Inl (ValueError ''Multi-loci selector can not be nested.'')"
| "clone (PySelector b loci func alleles len numArray) =
     Inr (PySelector b loci func alleles len None)"
| "clone (OtherOperator r) = clone_elsewhere r"

fun is_mlSelector :: "baseOperator \<Rightarrow> bool" where
  "is_mlSelector (MlSelector b selectors mode) = True"
| "is_mlSelector c = False"

fun declared_in_selector_h :: "baseOperator \<Rightarrow> bool" where
  "declared_in_selector_h (OtherOperator r) = False"
| "declared_in_selector_h c = True"

subsection \<open>maSelector\<close>

text \<open>
  \<open>static_cast<UINT>(x)\<close> for a \<open>double\<close> \<open>x\<close>. \<open>UINT\<close> is declared outside the two
  headers; it is taken as the 32-bit \<open>unsigned int\<close>. The value is truncated towards
  zero. C++ defines the result when the truncated value fits \<open>UINT\<close>: it is that
  value. For the other values the conversion still returns a \<open>UINT\<close>, and the
  constructor goes on with it; the definition gives the one an x86-64 build
  returns (the conversion to a signed 64-bit integer, of which the low 32 bits are
  kept): the truncated value modulo \<open>2 ^ 32\<close> when it fits 64 bits, and 0 when it
  does not.
\<close>

definition static_cast_UINT :: "real \<Rightarrow> nat" where
  "static_cast_UINT x =
     (let t = (if 0 \<le> x then \<lfloor>x\<rfloor> else \<lceil>x\<rceil>)
      in if - (2 ^ 63) \<le> t \<and> t < 2 ^ 63 then nat (t mod 2 ^ 32) else 0)"

text \<open>
  \<open>pow(static_cast<double>(3), static_cast<double>(n))\<close>, taken as the exact power:
  the rounding of \<open>double\<close> is not part of the model.
\<close>

definition pow3 :: "nat \<Rightarrow> real" where
  "pow3 n = 3 ^ n"

text \<open>
  \<open>maSelector(loci, fitness, wildtype, subPops, stage, ..., infoFields)\<close>: the members
  are initialised, then the length of the table is compared with the converted power.
\<close>

definition maSelector_init ::
  "nat list \<Rightarrow> real list \<Rightarrow> nat list \<Rightarrow> nat list \<Rightarrow> opArgs \<Rightarrow> error + baseOperator" where
  "maSelector_init loci fitness wildtype subPops args =
     (case DBG_ASSERT (length fitness = static_cast_UINT (pow3 (length loci)))
        (ValueError ''Please specify fitness for each combination of genotype.'') of
        Inl e \<Rightarrow> Inl e
      | Inr _ \<Rightarrow> Inr (MaSelector (selector_init subPops args) loci fitness wildtype))"

subsection \<open>mlSelector\<close>

definition SEL_None :: int where "SEL_None = 0"
definition SEL_Multiplicative :: int where "SEL_Multiplicative = 1"
definition SEL_Additive :: int where "SEL_Additive = 2"
definition SEL_Heterogeneity :: int where "SEL_Heterogeneity = 3"

text \<open>
  \<open>std::string::substr(pos, n)\<close>: throws \<open>std::out_of_range\<close> when \<open>pos\<close> is greater
  than the size, and otherwise returns at most \<open>n\<close> characters from \<open>pos\<close> on.
\<close>

definition substr :: "string \<Rightarrow> nat \<Rightarrow> nat \<Rightarrow> error + string" where
  "substr s pos n = (if pos > length s then Inl OutOfRange else Inr (take n (drop pos s)))"

text \<open>
  The loop of the constructor of \<open>mlSelector\<close>: each given operator is tested by the
  text of its \<open>__repr__\<close>, then cloned, and the clone is appended to \<open>m_selectors\<close>
  (the second argument).
\<close>

fun mlSelector_loop :: "baseOperator list \<Rightarrow> baseOperator list \<Rightarrow> error + baseOperator list" where
  "mlSelector_loop [] m_selectors = Inr m_selectors"
| "mlSelector_loop (s # ss) m_selectors =
     (case substr (repr s) 10 8 of
        Inl e \<Rightarrow> Inl e
      | Inr t \<Rightarrow>
         (case DBG_ASSERT (t = ''selector'')
            (ValueError (''Expecting a list of fitness calculator. Given '' @ repr s)) of
            Inl e \<Rightarrow> Inl e
          | Inr _ \<Rightarrow>
             (case clone s of
                Inl e \<Rightarrow> Inl e
              | Inr c \<Rightarrow> mlSelector_loop ss (m_selectors @ [c]))))"

text \<open>\<open>mlSelector(selectors, mode, subPops, stage, ..., infoFields)\<close>\<close>

definition mlSelector_init ::
  "baseOperator list \<Rightarrow> int \<Rightarrow> nat list \<Rightarrow> opArgs \<Rightarrow> error + baseOperator" where
  "mlSelector_init selectors mode subPops args =
     (case DBG_FAILIF (selectors = []) (ValueError ''Please specify at least one selector.'') of
        Inl e \<Rightarrow> Inl e
      | Inr _ \<Rightarrow>
         (case mlSelector_loop selectors [] of
            Inl e \<Rightarrow> Inl e
          | Inr m_selectors \<Rightarrow> Inr (MlSelector (selector_init subPops args) m_selectors mode)))"

text \<open>The test of the constructor's loop, as a predicate on the given operator.\<close>

definition accepted_as_selector :: "baseOperator \<Rightarrow> bool" where
  "accepted_as_selector s = (substr (repr s) 10 8 = Inr ''selector'')"

subsection \<open>Fitness of a multi-locus selector\<close>

text \<open>
  \<open>indFitness(individual *, ULONG gen)\<close> is virtual; the header defines it for
  \<open>selector\<close> only (it throws) and declares it in the subclasses. In the functions
  below the children's \<open>indFitness\<close> is the parameter \<open>indFitness\<close>, and fitness values
  are real numbers: the rounding of \<open>double\<close> is not part of the model.
\<close>

text \<open>
  Modelled from the spec: the multiplicative mode of \<open>mlSelector::indFitness\<close> (only
  declared): "result = product of all child fitness values". An error of a child is
  "propagated, not swallowed".
\<close>

fun child_product ::
  "(baseOperator \<Rightarrow> individual \<Rightarrow> nat \<Rightarrow> error + real) \<Rightarrow> baseOperator list \<Rightarrow>
     individual \<Rightarrow> nat \<Rightarrow> error + real" where
  "child_product indFitness [] ind gen = Inr 1"
| "child_product indFitness (s # ss) ind gen =
     (case indFitness s ind gen of
        Inl e \<Rightarrow> Inl e
      | Inr f \<Rightarrow>
         (case child_product indFitness ss ind gen of
            Inl e \<Rightarrow> Inl e
          | Inr r \<Rightarrow> Inr (f * r)))"

text \<open>
  Modelled from the spec: the sum of the additive mode of \<open>mlSelector::indFitness\<close>
  (only declared): "let \<open>s_i = 1 - f_i\<close> per child", summed over the children.
\<close>

fun child_loss ::
  "(baseOperator \<Rightarrow> individual \<Rightarrow> nat \<Rightarrow> error + real) \<Rightarrow> baseOperator list \<Rightarrow>
     individual \<Rightarrow> nat \<Rightarrow> error + real" where
  "child_loss indFitness [] ind gen = Inr 0"
| "child_loss indFitness (s # ss) ind gen =
     (case indFitness s ind gen of
        Inl e \<Rightarrow> Inl e
      | Inr f \<Rightarrow>
         (case child_loss indFitness ss ind gen of
            Inl e \<Rightarrow> Inl e
          | Inr r \<Rightarrow> Inr ((1 - f) + r)))"

text \<open>
  Modelled from the spec: \<open>mlSelector::indFitness\<close> (only declared). "Multiplicative:
  result = product of all child fitness values. Additive: let \<open>s_i = 1 - f_i\<close> per
  child; result = \<open>max(0, 1 - \<Sum> s_i)\<close>." The specification gives these two modes
  only: for another value of \<open>m_mode\<close> the model has no result (\<open>None\<close>).
\<close>

definition mlSelector_indFitness ::
  "(baseOperator \<Rightarrow> individual \<Rightarrow> nat \<Rightarrow> error + real) \<Rightarrow> baseOperator list \<Rightarrow> int \<Rightarrow>
     individual \<Rightarrow> nat \<Rightarrow> (error + real) option" where
  "mlSelector_indFitness indFitness m_selectors m_mode ind gen =
     (if m_mode = SEL_Multiplicative
      then Some (child_product indFitness m_selectors ind gen)
      else if m_mode = SEL_Additive
      then Some (case child_loss indFitness m_selectors ind gen of
                   Inl e \<Rightarrow> Inl e
                 | Inr s \<Rightarrow> Inr (max 0 (1 - s)))
      else None)"

section \<open>Properties of virtualSubPop.h\<close>

subsection \<open>vspID\<close>

text \<open>
  C9. Both constructors of \<open>vspID\<close> replace a negative subpopulation or virtual
  subpopulation index by the sentinel \<open>InvalidSubPopID\<close>. With a sentinel that is itself
  negative (it stands for "unset", not for an index), \<open>valid()\<close> holds exactly when the
  subpopulation index was supplied and non-negative, and \<open>isVirtual()\<close> exactly when
  the virtual subpopulation index was supplied and non-negative. The list constructor
  rejects a list of more than two elements with a \<open>ValueError\<close> and accepts every
  shorter list.
\<close>

theorem vspID_constructors_normalise:
  assumes "InvalidSubPopID < 0"
  shows "(valid InvalidSubPopID (vspID_pair InvalidSubPopID sp vsp) \<longleftrightarrow> 0 \<le> sp) \<and>
         (isVirtual InvalidSubPopID (vspID_pair InvalidSubPopID sp vsp) \<longleftrightarrow> 0 \<le> vsp) \<and>
         (sp < 0 \<longrightarrow> subPop (vspID_pair InvalidSubPopID sp vsp) = InvalidSubPopID) \<and>
         (vsp < 0 \<longrightarrow> virtualSubPop (vspID_pair InvalidSubPopID sp vsp) = InvalidSubPopID) \<and>
         (0 \<le> sp \<longrightarrow> subPop (vspID_pair InvalidSubPopID sp vsp) = sp) \<and>
         (0 \<le> vsp \<longrightarrow> virtualSubPop (vspID_pair InvalidSubPopID sp vsp) = vsp) \<and>
         (length xs > 2 \<longrightarrow> vspID_vectori InvalidSubPopID xs =
            Inl (ValueError ''VSP should be specified as a subPop and virtualSubPop ID pair'')) \<and>
         (length xs \<le> 2 \<longrightarrow> (\<exists>v. vspID_vectori InvalidSubPopID xs = Inr v \<and>
            (valid InvalidSubPopID v \<longleftrightarrow> 0 < length xs \<and> 0 \<le> xs ! 0) \<and>
            (isVirtual InvalidSubPopID v \<longleftrightarrow> 1 < length xs \<and> 0 \<le> xs ! 1) \<and>
            (\<not> valid InvalidSubPopID v \<longrightarrow> subPop v = InvalidSubPopID) \<and>
            (\<not> isVirtual InvalidSubPopID v \<longrightarrow> virtualSubPop v = InvalidSubPopID)))"
  using assms
  by (auto simp: valid_def isVirtual_def vspID_pair_def vspID_vectori_def DBG_FAILIF_def
        subPop_def virtualSubPop_def)

theorem vspID_constructors_normalise_witness:
  "(-1::int) < 0 \<and>
   valid (-1) (vspID_pair (-1) 3 (-7)) \<and>
   \<not> isVirtual (-1) (vspID_pair (-1) 3 (-7)) \<and>
   virtualSubPop (vspID_pair (-1) 3 (-7)) = -1 \<and>
   subPop (vspID_pair (-1) 3 (-7)) = 3 \<and>
   vspID_vectori (-1) [-4, 5] = Inr \<lparr>m_subPop = -1, m_virtualSubPop = 5\<rparr>"
  using vspID_constructors_normalise [of "-1" 3 "-7" "[-4, 5]"]
  by (simp add: vspID_vectori_def DBG_FAILIF_def)

subsection \<open>Deactivation\<close>

text \<open>
  C4. \<open>deactivate(subPop)\<close> fails, with a \<open>RuntimeError\<close>, exactly when \<open>subPop\<close>
  differs from the recorded activated subpopulation \<open>activatedSubPop()\<close>; when the two
  agree it succeeds and resets the record to \<open>InvalidSubPopID\<close>, leaving the names
  untouched. The record is one field, so a splitter has at most one activated
  subpopulation.
\<close>

theorem deactivate_fails_iff_mismatch:
  "((\<exists>e. deactivate InvalidSubPopID s sp = Inl e) \<longleftrightarrow> sp \<noteq> activatedSubPop s) \<and>
   (sp \<noteq> activatedSubPop s \<longrightarrow> deactivate InvalidSubPopID s sp =
      Inl (RuntimeError ''Deactivate non-activated virtual subpopulation.'')) \<and>
   (sp = activatedSubPop s \<longrightarrow> (\<exists>s'. deactivate InvalidSubPopID s sp = Inr s' \<and>
      activatedSubPop s' = InvalidSubPopID \<and> m_names s' = m_names s))"
  by (auto simp: deactivate_def DBG_FAILIF_def activatedSubPop_def)

theorem deactivate_fails_iff_mismatch_witness:
  "deactivate (-1) \<lparr>m_names = [], m_activated = 2\<rparr> 2 = Inr \<lparr>m_names = [], m_activated = -1\<rparr> \<and>
   deactivate (-1) \<lparr>m_names = [], m_activated = 2\<rparr> 1 =
     Inl (RuntimeError ''Deactivate non-activated virtual subpopulation.'')"
  using deactivate_fails_iff_mismatch [of "-1" "\<lparr>m_names = [], m_activated = 2\<rparr>" 2]
    deactivate_fails_iff_mismatch [of "-1" "\<lparr>m_names = [], m_activated = 2\<rparr>" 1]
  by (simp add: activatedSubPop_def deactivate_def DBG_FAILIF_def)

subsection \<open>Activation followed by deactivation\<close>

lemma activate_records_subPop:
  "activate meth s pop sp vsp = Inr (s1, pop1) \<Longrightarrow> activatedSubPop s1 = sp"
  by (auto simp: activate_def activatedSubPop_def split: if_splits)

lemma activate_out_of_range:
  "vsp < 0 \<or> numVirtualSubPop meth \<le> nat vsp \<Longrightarrow>
   activate meth s pop sp vsp = Inl UsageError \<and>
   activate_deactivate InvalidSubPopID meth s pop sp vsp = Inl UsageError"
  by (simp add: activate_def activate_deactivate_def)

lemma activate_deactivate_keeps_flags:
  assumes "0 \<le> vsp" and "nat vsp < numVirtualSubPop meth"
  shows "\<exists>s1 pop'. activate meth s pop sp vsp = Inr (s1, pop') \<and>
     activate_deactivate InvalidSubPopID meth s pop sp vsp =
       Inr (s1\<lparr>m_activated := InvalidSubPopID\<rparr>, pop') \<and>
     length pop' = length pop \<and>
     (0 \<le> sp \<and> nat sp < length pop \<longrightarrow>
        length (pop' ! nat sp) = length (pop ! nat sp) \<and>
        (\<forall>i<length (pop ! nat sp).
           visible (pop' ! nat sp ! i) \<longleftrightarrow>
             contains meth pop i \<lparr>m_subPop = sp, m_virtualSubPop = vsp\<rparr>))"
  using assms
  by (simp add: activate_deactivate_def activate_def deactivate_def DBG_FAILIF_def
      set_visibility_def)


subsection \<open>productSplitter\<close>

lemma length_mixed_radix: "length (mixed_radix cs v) = length cs"
  by (induction cs arbitrary: v) simp_all

lemma mixed_radix_digits:
  "v < prod_list cs \<Longrightarrow> i < length cs \<Longrightarrow> mixed_radix cs v ! i < cs ! i"
proof (induction cs arbitrary: v i)
  case Nil
  then show ?case by simp
next
  case (Cons c cs)
  from Cons.prems(1) have pos: "0 < prod_list cs"
    by (cases "prod_list cs = 0") simp_all
  show ?case
  proof (cases i)
    case 0
    from Cons.prems(1) have "v < c * prod_list cs"
      by simp
    then have "v div prod_list cs < c"
      by (rule less_mult_imp_div_less)
    with 0 show ?thesis by simp
  next
    case (Suc j)
    have "v mod prod_list cs < prod_list cs"
      using pos by simp
    from Cons.IH [OF this, of j] Suc Cons.prems(2) show ?thesis by simp
  qed
qed

lemma mixed_radix_value_inverse:
  "v < prod_list cs \<Longrightarrow> mixed_radix_value cs (mixed_radix cs v) = v"
proof (induction cs arbitrary: v)
  case Nil
  then show ?case by simp
next
  case (Cons c cs)
  from Cons.prems have pos: "0 < prod_list cs"
    by (cases "prod_list cs = 0") simp_all
  then have "v mod prod_list cs < prod_list cs" by simp
  from Cons.IH [OF this] show ?case by simp
qed

lemma mixed_radix_value_bound:
  "list_all2 (<) ds cs \<Longrightarrow> mixed_radix_value cs ds < prod_list cs"
proof (induction rule: list_all2_induct)
  case Nil
  then show ?case by simp
next
  case (Cons d ds c cs)
  have "d * prod_list cs + mixed_radix_value cs ds < d * prod_list cs + prod_list cs"
    using Cons.IH by simp
  also have "\<dots> = Suc d * prod_list cs"
    by simp
  also have "\<dots> \<le> c * prod_list cs"
    using Cons.hyps(1) by (intro mult_le_mono1) simp
  finally show ?case by simp
qed

lemma mixed_radix_of_value:
  "list_all2 (<) ds cs \<Longrightarrow> mixed_radix cs (mixed_radix_value cs ds) = ds"
proof (induction rule: list_all2_induct)
  case Nil
  then show ?case by simp
next
  case (Cons d ds c cs)
  have "mixed_radix_value cs ds < prod_list cs"
    using Cons.hyps(2) by (rule mixed_radix_value_bound)
  then show ?case
    using Cons.IH by simp
qed

lemma list_all_zip_nth:
  "length xs = length ys \<Longrightarrow>
   list_all P (zip xs ys) \<longleftrightarrow> (\<forall>i<length xs. P (xs ! i, ys ! i))"
  by (auto simp: list_all_iff set_zip)

text \<open>
  C1. For the product splitter built from the given children, with \<open>counts\<close> the
  children's VSP counts:
  \<^item> \<open>numVirtualSubPop()\<close> is the product of the counts;
  \<^item> a flattened index \<open>v\<close> below the product decomposes into one child-local index per
    child, each below its child's count, and the indices are the digits of \<open>v\<close> in the
    mixed radix of the counts, the first child being the most significant;
  \<^item> conversely every choice \<open>ds\<close> of one child-local index per child, each below its
    child's count, is the decomposition of one flattened index below the product;
  \<^item> \<open>contains\<close> holds for \<open>v\<close> exactly when every child contains the individual in its
    child-local VSP;
  \<^item> for the counts \<open>[2, 3]\<close> there are 6 VSPs and index 4 decomposes into \<open>(1, 1)\<close>.
\<close>

theorem productSplitter_decomposition:
  assumes p: "p = productSplitter_init InvalidSubPopID splitters names"
    and counts: "counts = map numVirtualSubPop splitters"
  shows "product_numVirtualSubPop p = prod_list counts \<and>
         (v < prod_list counts \<longrightarrow>
            length (getVSPs p v) = length splitters \<and>
            (\<forall>i<length splitters. getVSPs p v ! i < numVirtualSubPop (splitters ! i)) \<and>
            mixed_radix_value counts (getVSPs p v) = v \<and>
            product_contains p pop ind \<lparr>m_subPop = sp, m_virtualSubPop = int v\<rparr> =
              Inr (\<forall>i<length splitters. contains (splitters ! i) pop ind
                     \<lparr>m_subPop = sp, m_virtualSubPop = int (getVSPs p v ! i)\<rparr>)) \<and>
         (length ds = length splitters \<and>
          (\<forall>i<length splitters. ds ! i < numVirtualSubPop (splitters ! i)) \<longrightarrow>
            mixed_radix_value counts ds < prod_list counts \<and>
            getVSPs p (mixed_radix_value counts ds) = ds) \<and>
         (counts = [2, 3] \<longrightarrow> product_numVirtualSubPop p = 6 \<and> getVSPs p 4 = [1, 1])"
proof -
  have num: "product_numVirtualSubPop p = prod_list counts"
    by (simp add: p counts product_numVirtualSubPop_def productSplitter_init_def)
  have get: "getVSPs p w = mixed_radix counts w" for w
    by (simp add: p counts getVSPs_def productSplitter_init_def)
  have len: "length (getVSPs p v) = length splitters"
    by (simp add: get length_mixed_radix counts)
  have digits: "\<forall>i<length splitters. getVSPs p v ! i < numVirtualSubPop (splitters ! i)"
    if "v < prod_list counts"
    using mixed_radix_digits [OF that] by (simp add: get counts)
  have val: "mixed_radix_value counts (getVSPs p v) = v" if "v < prod_list counts"
    using mixed_radix_value_inverse [OF that] by (simp add: get)
  have cont: "product_contains p pop ind \<lparr>m_subPop = sp, m_virtualSubPop = int v\<rparr> =
      Inr (\<forall>i<length splitters. contains (splitters ! i) pop ind
             \<lparr>m_subPop = sp, m_virtualSubPop = int (getVSPs p v ! i)\<rparr>)"
    if "v < prod_list counts"
  proof -
    have "m_numVSP p = prod_list counts" "prod_splitters p = splitters"
      by (simp_all add: p counts productSplitter_init_def)
    then show ?thesis
      using that len
      by (simp add: product_contains_def list_all_zip_nth)
  qed
  have inverse: "mixed_radix_value counts ds < prod_list counts \<and>
      getVSPs p (mixed_radix_value counts ds) = ds"
    if "length ds = length splitters"
      "\<forall>i<length splitters. ds ! i < numVirtualSubPop (splitters ! i)"
  proof -
    from that have "list_all2 (<) ds counts"
      by (simp add: list_all2_conv_all_nth counts)
    then show ?thesis
      using mixed_radix_value_bound mixed_radix_of_value by (simp add: get)
  qed
  have example: "product_numVirtualSubPop p = 6 \<and> getVSPs p 4 = [1, 1]" if "counts = [2, 3]"
    using that by (simp add: num get)
  show ?thesis
    using num len digits val cont inverse example by blast
qed

theorem productSplitter_decomposition_witness:
  "product_numVirtualSubPop
     (productSplitter_init (- 1) [sexSplitter, rangeSplitter [(0, 2), (1, 3), (2, 4)]] []) = 6 \<and>
   getVSPs
     (productSplitter_init (- 1) [sexSplitter, rangeSplitter [(0, 2), (1, 3), (2, 4)]] []) 4 =
     [1, 1] \<and>
   mixed_radix_value [2, 3] [1, 1] = 4 \<and>
   product_contains
     (productSplitter_init (- 1) [sexSplitter, rangeSplitter [(0, 2), (1, 3), (2, 4)]] [])
     [[\<lparr>sex = Male, affected = False, visible = True\<rparr>,
       \<lparr>sex = Female, affected = True, visible = True\<rparr>,
       \<lparr>sex = Female, affected = False, visible = True\<rparr>]]
     2 \<lparr>m_subPop = 0, m_virtualSubPop = 4\<rparr> = Inr True"
  using productSplitter_decomposition
    [where p = "productSplitter_init (- 1) [sexSplitter, rangeSplitter [(0, 2), (1, 3), (2, 4)]] []"
       and InvalidSubPopID = "- 1"
       and splitters = "[sexSplitter, rangeSplitter [(0, 2), (1, 3), (2, 4)]]"
       and names = "[]" and counts = "[2, 3]" and v = 4 and ind = 2 and sp = 0
       and ds = "[1, 1]"
       and pop = "[[\<lparr>sex = Male, affected = False, visible = True\<rparr>,
                    \<lparr>sex = Female, affected = True, visible = True\<rparr>,
                    \<lparr>sex = Female, affected = False, visible = True\<rparr>]]"]
  by (simp add: sexSplitter_def rangeSplitter_def ind_at_def All_less_Suc2 numeral_2_eq_2)

subsection \<open>combinedSplitter\<close>









section \<open>Properties of selector.h\<close>

subsection \<open>Cloning\<close>

lemma clone_not_mlSelector:
  "\<not> is_mlSelector s \<Longrightarrow> \<exists>c. clone s = Inr c"
  by (cases s) (simp_all add: clone_elsewhere_def)

lemma clone_mlSelector:
  "is_mlSelector s \<Longrightarrow> clone s = Inl (ValueError ''Multi-loci selector can not be nested.'')"
  by (cases s) simp_all

lemma declared_accepted:
  "declared_in_selector_h s \<Longrightarrow> accepted_as_selector s"
  by (cases s) (simp_all add: accepted_as_selector_def substr_def)

text \<open>
  C10. \<open>mlSelector::clone()\<close> throws \<open>ValueError("Multi-loci selector can not be
  nested.")\<close> whatever the selector holds: its children, its mode and its base part
  are arbitrary here. In particular the multi-locus selector that a successful
  construction returns cannot be copied.
\<close>

theorem mlSelector_clone_always_fails:
  "clone (MlSelector b selectors mode) =
     Inl (ValueError ''Multi-loci selector can not be nested.'') \<and>
   (mlSelector_init children mode' subPops args = Inr m \<longrightarrow>
      clone m = Inl (ValueError ''Multi-loci selector can not be nested.''))"
  by (auto simp: mlSelector_init_def split: sum.splits)

theorem mlSelector_clone_always_fails_witness:
  "mlSelector_init [Selector (selector_init [] (default_opArgs 1 (- 1) (- 1)))]
       SEL_Multiplicative [] (default_opArgs 1 (- 1) (- 1)) =
     Inr (MlSelector (selector_init [] (default_opArgs 1 (- 1) (- 1)))
            [Selector (selector_init [] (default_opArgs 1 (- 1) (- 1)))] SEL_Multiplicative) \<and>
   clone (MlSelector (selector_init [] (default_opArgs 1 (- 1) (- 1)))
            [Selector (selector_init [] (default_opArgs 1 (- 1) (- 1)))] SEL_Multiplicative) =
     Inl (ValueError ''Multi-loci selector can not be nested.'')"
  using mlSelector_clone_always_fails
    [where children = "[Selector (selector_init [] (default_opArgs 1 (- 1) (- 1)))]"
       and mode' = SEL_Multiplicative and subPops = "[]"
       and args = "default_opArgs 1 (- 1) (- 1)"
       and m = "MlSelector (selector_init [] (default_opArgs 1 (- 1) (- 1)))
            [Selector (selector_init [] (default_opArgs 1 (- 1) (- 1)))] SEL_Multiplicative"]
  by (simp add: mlSelector_init_def DBG_FAILIF_def DBG_ASSERT_def substr_def)

subsection \<open>Construction of a multi-locus selector\<close>

lemma mlSelector_loop_copies:
  "\<forall>s\<in>set ss. accepted_as_selector s \<and> \<not> is_mlSelector s \<Longrightarrow>
   \<exists>cs. mlSelector_loop ss acc = Inr (acc @ cs) \<and> map clone ss = map Inr cs"
proof (induction ss arbitrary: acc)
  case Nil
  then show ?case by simp
next
  case (Cons s ss)
  from Cons.prems have acc: "substr (repr s) 10 8 = Inr ''selector''"
    by (simp add: accepted_as_selector_def)
  from Cons.prems obtain c where c: "clone s = Inr c"
    using clone_not_mlSelector [of s] by auto
  from Cons.prems have "\<forall>s\<in>set ss. accepted_as_selector s \<and> \<not> is_mlSelector s"
    by simp
  from Cons.IH [OF this, of "acc @ [c]"]
  obtain cs where cs: "mlSelector_loop ss (acc @ [c]) = Inr ((acc @ [c]) @ cs)"
    "map clone ss = map Inr cs"
    by blast
  have "mlSelector_loop (s # ss) acc = Inr (acc @ (c # cs))"
    using acc c cs(1) by (simp add: DBG_ASSERT_def)
  moreover have "map clone (s # ss) = map Inr (c # cs)"
    using c cs(2) by simp
  ultimately show ?case by blast
qed

lemma mlSelector_loop_nested:
  "\<exists>s\<in>set ss. is_mlSelector s \<Longrightarrow> \<exists>e. mlSelector_loop ss acc = Inl e"
proof (induction ss arbitrary: acc)
  case Nil
  then show ?case by simp
next
  case (Cons s ss)
  show ?case
  proof (cases "is_mlSelector s")
    case True
    then show ?thesis
      by (simp add: clone_mlSelector DBG_ASSERT_def split: sum.splits)
  next
    case False
    with Cons.prems have "\<exists>s\<in>set ss. is_mlSelector s" by simp
    from Cons.IH [OF this] show ?thesis
      by (simp add: DBG_ASSERT_def split: sum.splits)
  qed
qed

lemma mlSelector_loop_nested_declared:
  "\<exists>s\<in>set ss. is_mlSelector s \<Longrightarrow> \<forall>s\<in>set ss. declared_in_selector_h s \<Longrightarrow>
   mlSelector_loop ss acc = Inl (ValueError ''Multi-loci selector can not be nested.'')"
proof (induction ss arbitrary: acc)
  case Nil
  then show ?case by simp
next
  case (Cons s ss)
  from Cons.prems(2) have acc: "substr (repr s) 10 8 = Inr ''selector''"
    using declared_accepted [of s] by (simp add: accepted_as_selector_def)
  show ?case
  proof (cases "is_mlSelector s")
    case True
    then show ?thesis
      using acc by (simp add: clone_mlSelector DBG_ASSERT_def)
  next
    case False
    then obtain c where c: "clone s = Inr c"
      using clone_not_mlSelector by blast
    from False Cons.prems have "\<exists>s\<in>set ss. is_mlSelector s"
      and "\<forall>s\<in>set ss. declared_in_selector_h s" by simp_all
    from Cons.IH [OF this] show ?thesis
      using acc c by (simp add: DBG_ASSERT_def)
  qed
qed

text \<open>
  C8. The constructor of \<open>mlSelector\<close>
  \<^item> fails with a \<open>ValueError\<close> on an empty list of selectors;
  \<^item> fails when the list holds a multi-locus selector: with the \<open>ValueError\<close> of
    \<open>mlSelector::clone\<close> when every given operator is one of the selectors of
    \<open>selector.h\<close>, and with some error in any case;
  \<^item> succeeds on a non-empty list of operators that pass its test on \<open>__repr__\<close> and
    are no multi-locus selectors, and then \<open>m_selectors\<close> holds, in order, the clone of
    each given operator; every selector of \<open>selector.h\<close> passes the test;
  \<^item> the clone of a \<open>selector\<close>, \<open>mapSelector\<close> or \<open>maSelector\<close> equals the original, and
    the clone of a \<open>pySelector\<close> equals it up to \<open>m_numArray\<close>, which is \<open>NULL\<close>.
\<close>

theorem mlSelector_init_children:
  "mlSelector_init [] mode subPops args =
     Inl (ValueError ''Please specify at least one selector.'') \<and>
   ((\<exists>s\<in>set selectors. is_mlSelector s) \<longrightarrow>
      (\<exists>e. mlSelector_init selectors mode subPops args = Inl e)) \<and>
   ((\<exists>s\<in>set selectors. is_mlSelector s) \<and> (\<forall>s\<in>set selectors. declared_in_selector_h s) \<longrightarrow>
      mlSelector_init selectors mode subPops args =
        Inl (ValueError ''Multi-loci selector can not be nested.'')) \<and>
   (selectors \<noteq> [] \<and> (\<forall>s\<in>set selectors. accepted_as_selector s \<and> \<not> is_mlSelector s) \<longrightarrow>
      (\<exists>cs. mlSelector_init selectors mode subPops args =
               Inr (MlSelector (selector_init subPops args) cs mode) \<and>
            map clone selectors = map Inr cs)) \<and>
   (declared_in_selector_h s \<longrightarrow> accepted_as_selector s) \<and>
   clone (Selector b) = Inr (Selector b) \<and>
   clone (MapSelector b loci dict phase) = Inr (MapSelector b loci dict phase) \<and>
   clone (MaSelector b loci fitness wildtype) = Inr (MaSelector b loci fitness wildtype) \<and>
   clone (PySelector b loci func alleles len numArray) =
     Inr (PySelector b loci func alleles len None)"
proof -
  have empty: "mlSelector_init [] mode subPops args =
      Inl (ValueError ''Please specify at least one selector.'')"
    by (simp add: mlSelector_init_def DBG_FAILIF_def)
  have nested: "\<exists>e. mlSelector_init selectors mode subPops args = Inl e"
    if "\<exists>s\<in>set selectors. is_mlSelector s"
    using mlSelector_loop_nested [OF that, of "[]"]
    by (auto simp: mlSelector_init_def DBG_FAILIF_def)
  have nested_declared: "mlSelector_init selectors mode subPops args =
      Inl (ValueError ''Multi-loci selector can not be nested.'')"
    if "\<exists>s\<in>set selectors. is_mlSelector s" "\<forall>s\<in>set selectors. declared_in_selector_h s"
    using mlSelector_loop_nested_declared [OF that, of "[]"] that(1)
    by (auto simp: mlSelector_init_def DBG_FAILIF_def)
  have copies: "\<exists>cs. mlSelector_init selectors mode subPops args =
               Inr (MlSelector (selector_init subPops args) cs mode) \<and>
            map clone selectors = map Inr cs"
    if "selectors \<noteq> []" "\<forall>s\<in>set selectors. accepted_as_selector s \<and> \<not> is_mlSelector s"
    using mlSelector_loop_copies [OF that(2), of "[]"] that(1)
    by (auto simp: mlSelector_init_def DBG_FAILIF_def)
  show ?thesis
    using empty nested nested_declared copies declared_accepted [of s] by simp
qed

theorem mlSelector_init_children_witness:
  "mlSelector_init
       [Selector (selector_init [] (default_opArgs 1 (- 1) (- 1))),
        MlSelector (selector_init [] (default_opArgs 1 (- 1) (- 1)))
          [Selector (selector_init [] (default_opArgs 1 (- 1) (- 1)))] SEL_Multiplicative]
       SEL_Additive [] (default_opArgs 1 (- 1) (- 1)) =
     Inl (ValueError ''Multi-loci selector can not be nested.'') \<and>
   mlSelector_init
       [MaSelector (selector_init [] (default_opArgs 1 (- 1) (- 1))) [0] [1, 0.9, 0.8] [0],
        PySelector (selector_init [] (default_opArgs 1 (- 1) (- 1))) [2] (Some 100) [] 0 (Some 200)]
       SEL_Additive [] (default_opArgs 1 (- 1) (- 1)) =
     Inr (MlSelector (selector_init [] (default_opArgs 1 (- 1) (- 1)))
       [MaSelector (selector_init [] (default_opArgs 1 (- 1) (- 1))) [0] [1, 0.9, 0.8] [0],
        PySelector (selector_init [] (default_opArgs 1 (- 1) (- 1))) [2] (Some 100) [] 0 None]
       SEL_Additive)"
  using mlSelector_init_children
    [where selectors = "[Selector (selector_init [] (default_opArgs 1 (- 1) (- 1))),
        MlSelector (selector_init [] (default_opArgs 1 (- 1) (- 1)))
          [Selector (selector_init [] (default_opArgs 1 (- 1) (- 1)))] SEL_Multiplicative]"
       and mode = SEL_Additive and subPops = "[]" and args = "default_opArgs 1 (- 1) (- 1)"]
    mlSelector_init_children
    [where selectors = "[MaSelector (selector_init [] (default_opArgs 1 (- 1) (- 1))) [0] [1, 0.9, 0.8] [0],
        PySelector (selector_init [] (default_opArgs 1 (- 1) (- 1))) [2] (Some 100) [] 0 (Some 200)]"
       and mode = SEL_Additive and subPops = "[]" and args = "default_opArgs 1 (- 1) (- 1)"]
  by (simp add: mlSelector_init_def DBG_FAILIF_def DBG_ASSERT_def substr_def)

subsection \<open>Construction of a multiple-allele selector\<close>

lemma static_cast_UINT_pow3:
  assumes "3 ^ k < (2::nat) ^ 32"
  shows "static_cast_UINT (pow3 k) = 3 ^ k"
proof -
  have e: "pow3 k = real (3 ^ k)"
    by (simp add: pow3_def)
  have floor: "\<lfloor>pow3 k\<rfloor> = int (3 ^ k)"
    unfolding e by simp
  have nonneg: "0 \<le> pow3 k"
    by (simp add: pow3_def)
  have small: "int (3 ^ k) < 2 ^ 32"
    using assms by (metis of_nat_less_iff of_nat_numeral of_nat_power)
  then have "int (3 ^ k) mod 2 ^ 32 = int (3 ^ k)" and "int (3 ^ k) < 2 ^ 63"
    by simp_all
  then show ?thesis
    using floor nonneg by (simp add: static_cast_UINT_def Let_def)
qed

lemma static_cast_UINT_less: "static_cast_UINT x < 2 ^ 32"
proof -
  have "nat (t mod 2 ^ 32) < 2 ^ 32" for t :: int
    by (simp add: nat_less_iff)
  then show ?thesis
    by (simp add: static_cast_UINT_def Let_def)
qed

text \<open>
  As long as \<open>3 ^ k\<close> fits \<open>UINT\<close> (\<open>k \<le> 20\<close>) the constructor accepts the tables of
  length \<open>3 ^ k\<close> and no others.
\<close>

lemma maSelector_init_table_length:
  assumes "3 ^ length loci < (2::nat) ^ 32"
  shows "((\<exists>m. maSelector_init loci fitness wildtype subPops args = Inr m) \<longleftrightarrow>
            length fitness = 3 ^ length loci) \<and>
         (length fitness \<noteq> 3 ^ length loci \<longrightarrow>
            maSelector_init loci fitness wildtype subPops args =
              Inl (ValueError ''Please specify fitness for each combination of genotype.'')) \<and>
         (length fitness = 3 ^ length loci \<longrightarrow>
            maSelector_init loci fitness wildtype subPops args =
              Inr (MaSelector (selector_init subPops args) loci fitness wildtype))"
  using static_cast_UINT_pow3 [OF assms]
  by (auto simp: maSelector_init_def DBG_ASSERT_def)

lemma maSelector_init_single_locus:
  "maSelector_init [5] [1, 0.9, 0.8] [0] [] (default_opArgs 1 (- 1) (- 1)) =
     Inr (MaSelector (selector_init [] (default_opArgs 1 (- 1) (- 1))) [5] [1, 0.9, 0.8] [0]) \<and>
   maSelector_init [5] [1, 0.9] [0] [] (default_opArgs 1 (- 1) (- 1)) =
     Inl (ValueError ''Please specify fitness for each combination of genotype.'') \<and>
   maSelector_init [5] [1, 0.9, 0.8, 0.7] [0] [] (default_opArgs 1 (- 1) (- 1)) =
     Inl (ValueError ''Please specify fitness for each combination of genotype.'')"
  using maSelector_init_table_length [of "[5]" "[1, 0.9, 0.8]" "[0]" "[]" "default_opArgs 1 (- 1) (- 1)"]
    maSelector_init_table_length [of "[5]" "[1, 0.9]" "[0]" "[]" "default_opArgs 1 (- 1) (- 1)"]
    maSelector_init_table_length [of "[5]" "[1, 0.9, 0.8, 0.7]" "[0]" "[]" "default_opArgs 1 (- 1) (- 1)"]
  by simp

text \<open>
  From 21 loci on, \<open>3 ^ k\<close> is no \<open>UINT\<close>: the length the constructor compares the
  table with is another number, and a table of length \<open>3 ^ k\<close> is rejected.
\<close>

lemma maSelector_init_beyond_UINT:
  assumes "(2::nat) ^ 32 \<le> 3 ^ length loci"
  shows "static_cast_UINT (pow3 (length loci)) \<noteq> 3 ^ length loci \<and>
         (length fitness = 3 ^ length loci \<longrightarrow>
            maSelector_init loci fitness wildtype subPops args =
              Inl (ValueError ''Please specify fitness for each combination of genotype.''))"
proof -
  have "static_cast_UINT (pow3 (length loci)) < 3 ^ length loci"
    using static_cast_UINT_less [of "pow3 (length loci)"] assms by linarith
  then show ?thesis
    by (auto simp: maSelector_init_def DBG_ASSERT_def)
qed

text \<open>
  C7 fails on the constructor of \<open>maSelector\<close>. For the 40 loci \<open>0, ..., 39\<close> the
  power \<open>3 ^ 40\<close> (and the \<open>double\<close> nearest to it) is beyond \<open>UINT\<close>, and beyond 64
  bits: the converted value is 0, the comparison of the constructor holds for the
  empty table, and the selector is built with a table of length 0 instead of
  \<open>3 ^ 40\<close>.
\<close>

theorem maSelector_init_forty_loci_empty_table:
  "maSelector_init [0..<40] [] [0] [] (default_opArgs 1 (- 1) (- 1)) =
     Inr (MaSelector (selector_init [] (default_opArgs 1 (- 1) (- 1))) [0..<40] [] [0]) \<and>
   length ([] :: real list) \<noteq> 3 ^ length [0..<40]"
  by (simp add: maSelector_init_def DBG_ASSERT_def static_cast_UINT_def pow3_def Let_def)

subsection \<open>Fitness of a multi-locus selector\<close>

lemma child_product_values:
  "map (\<lambda>s. indFitness s ind gen) ss = map Inr fs \<Longrightarrow>
   child_product indFitness ss ind gen = Inr (prod_list fs)"
  by (induction ss arbitrary: fs) auto

lemma child_loss_values:
  "map (\<lambda>s. indFitness s ind gen) ss = map Inr fs \<Longrightarrow>
   child_loss indFitness ss ind gen = Inr (\<Sum>f\<leftarrow>fs. 1 - f)"
  by (induction ss arbitrary: fs) auto

text \<open>
  C5. In the additive mode, when the children return the fitness values \<open>fs\<close> for
  the individual and the generation, \<open>indFitness\<close> returns
  \<open>max(0, 1 - \<Sum> (1 - f))\<close>, the sum over the values \<open>f\<close> of \<open>fs\<close>. Children
  returning 0.7 and 0.6 give 0.3; with a third child returning 0.1 the result is 0.
\<close>

theorem mlSelector_additive:
  "map (\<lambda>s. indFitness s ind gen) selectors = map Inr fs \<Longrightarrow>
   mlSelector_indFitness indFitness selectors SEL_Additive ind gen =
     Some (Inr (max 0 (1 - (\<Sum>f\<leftarrow>fs. 1 - f))))"
  by (simp add: mlSelector_indFitness_def child_loss_values SEL_Additive_def
      SEL_Multiplicative_def)

theorem mlSelector_additive_witness:
  "mlSelector_indFitness (\<lambda>s ind gen. case s of MaSelector b loci fitness wildtype \<Rightarrow> Inr (fitness ! 0)
         | _ \<Rightarrow> Inl (ValueError ''This selector is not supposed to be called directly''))
     [MaSelector (selector_init [] (default_opArgs 1 (- 1) (- 1))) [0] [0.7, 1, 1] [0],
      MaSelector (selector_init [] (default_opArgs 1 (- 1) (- 1))) [1] [0.6, 1, 1] [0]]
     SEL_Additive \<lparr>sex = Male, affected = False, visible = True\<rparr> 0 = Some (Inr 0.3) \<and>
   mlSelector_indFitness (\<lambda>s ind gen. case s of MaSelector b loci fitness wildtype \<Rightarrow> Inr (fitness ! 0)
         | _ \<Rightarrow> Inl (ValueError ''This selector is not supposed to be called directly''))
     [MaSelector (selector_init [] (default_opArgs 1 (- 1) (- 1))) [0] [0.7, 1, 1] [0],
      MaSelector (selector_init [] (default_opArgs 1 (- 1) (- 1))) [1] [0.6, 1, 1] [0],
      MaSelector (selector_init [] (default_opArgs 1 (- 1) (- 1))) [2] [0.1, 1, 1] [0]]
     SEL_Additive \<lparr>sex = Male, affected = False, visible = True\<rparr> 0 = Some (Inr 0)"
  using mlSelector_additive
    [where fs = "[0.7, 0.6]" and ind = "\<lparr>sex = Male, affected = False, visible = True\<rparr>"
       and gen = 0
       and indFitness = "\<lambda>s ind gen. case s of MaSelector b loci fitness wildtype \<Rightarrow> Inr (fitness ! 0)
         | _ \<Rightarrow> Inl (ValueError ''This selector is not supposed to be called directly'')"
       and selectors = "[MaSelector (selector_init [] (default_opArgs 1 (- 1) (- 1))) [0] [0.7, 1, 1] [0],
      MaSelector (selector_init [] (default_opArgs 1 (- 1) (- 1))) [1] [0.6, 1, 1] [0]]"]
    mlSelector_additive
    [where fs = "[0.7, 0.6, 0.1]" and ind = "\<lparr>sex = Male, affected = False, visible = True\<rparr>"
       and gen = 0
       and indFitness = "\<lambda>s ind gen. case s of MaSelector b loci fitness wildtype \<Rightarrow> Inr (fitness ! 0)
         | _ \<Rightarrow> Inl (ValueError ''This selector is not supposed to be called directly'')"
       and selectors = "[MaSelector (selector_init [] (default_opArgs 1 (- 1) (- 1))) [0] [0.7, 1, 1] [0],
      MaSelector (selector_init [] (default_opArgs 1 (- 1) (- 1))) [1] [0.6, 1, 1] [0],
      MaSelector (selector_init [] (default_opArgs 1 (- 1) (- 1))) [2] [0.1, 1, 1] [0]]"]
  by simp

text \<open>
  C6. In the multiplicative mode, when the children return the fitness values \<open>fs\<close>
  for the individual and the generation, \<open>indFitness\<close> returns the product of \<open>fs\<close>.
  Children returning 0.8 and 0.5 give 0.4.
\<close>

theorem mlSelector_multiplicative:
  "map (\<lambda>s. indFitness s ind gen) selectors = map Inr fs \<Longrightarrow>
   mlSelector_indFitness indFitness selectors SEL_Multiplicative ind gen =
     Some (Inr (prod_list fs))"
  by (simp add: mlSelector_indFitness_def child_product_values)

theorem mlSelector_multiplicative_witness:
  "mlSelector_indFitness (\<lambda>s ind gen. case s of MaSelector b loci fitness wildtype \<Rightarrow> Inr (fitness ! 0)
         | _ \<Rightarrow> Inl (ValueError ''This selector is not supposed to be called directly''))
     [MaSelector (selector_init [] (default_opArgs 1 (- 1) (- 1))) [0] [0.8, 1, 1] [0],
      MaSelector (selector_init [] (default_opArgs 1 (- 1) (- 1))) [1] [0.5, 1, 1] [0]]
     SEL_Multiplicative \<lparr>sex = Female, affected = False, visible = True\<rparr> 7 = Some (Inr 0.4)"
  using mlSelector_multiplicative
    [where fs = "[0.8, 0.5]" and ind = "\<lparr>sex = Female, affected = False, visible = True\<rparr>"
       and gen = 7
       and indFitness = "\<lambda>s ind gen. case s of MaSelector b loci fitness wildtype \<Rightarrow> Inr (fitness ! 0)
         | _ \<Rightarrow> Inl (ValueError ''This selector is not supposed to be called directly'')"
       and selectors = "[MaSelector (selector_init [] (default_opArgs 1 (- 1) (- 1))) [0] [0.8, 1, 1] [0],
      MaSelector (selector_init [] (default_opArgs 1 (- 1) (- 1))) [1] [0.5, 1, 1] [0]]"]
  by simp

end
